theory Spec2Isabelle
  imports Complex_Main
begin

section \<open>JavaScript numbers\<close>

text \<open>
  A JavaScript number is modelled as a real number or one of the three special values
  of IEEE-754.  Finite doubles are read as the real numbers they denote, so comparisons,
  \<open>Math.max\<close>, \<open>Math.min\<close>, \<open>Math.round\<close> and \<open>Math.floor\<close> are exact; sums, products,
  quotients, \<open>Math.sqrt\<close> and \<open>Math.log10\<close> are taken in exact arithmetic (rounding to the
  nearest double, overflow to an infinity and the sign of zero are not part of the model).
  Where the rounding decides, in the convergence of the smoothed level, the smoothing
  assignment is taken in the doubles' own arithmetic: \<open>smooth64\<close> below.
\<close>

datatype jsnum = NaN | NegInf | Num real | PosInf

instantiation jsnum :: "{plus, minus, times, inverse, ord}"
begin

fun plus_jsnum :: "jsnum \<Rightarrow> jsnum \<Rightarrow> jsnum" where
  "plus_jsnum NaN _ = NaN"
| "plus_jsnum _ NaN = NaN"
| "plus_jsnum (Num a) (Num b) = Num (a + b)"
| "plus_jsnum PosInf NegInf = NaN"
| "plus_jsnum NegInf PosInf = NaN"
| "plus_jsnum PosInf _ = PosInf"
| "plus_jsnum _ PosInf = PosInf"
| "plus_jsnum NegInf _ = NegInf"
| "plus_jsnum _ NegInf = NegInf"

fun minus_jsnum :: "jsnum \<Rightarrow> jsnum \<Rightarrow> jsnum" where
  "minus_jsnum NaN _ = NaN"
| "minus_jsnum _ NaN = NaN"
| "minus_jsnum (Num a) (Num b) = Num (a - b)"
| "minus_jsnum PosInf PosInf = NaN"
| "minus_jsnum NegInf NegInf = NaN"
| "minus_jsnum PosInf _ = PosInf"
| "minus_jsnum NegInf _ = NegInf"
| "minus_jsnum _ PosInf = NegInf"
| "minus_jsnum _ NegInf = PosInf"

fun times_jsnum :: "jsnum \<Rightarrow> jsnum \<Rightarrow> jsnum" where
  "times_jsnum NaN _ = NaN"
| "times_jsnum _ NaN = NaN"
| "times_jsnum (Num a) (Num b) = Num (a * b)"
| "times_jsnum PosInf (Num b) = (if b = 0 then NaN else if 0 < b then PosInf else NegInf)"
| "times_jsnum NegInf (Num b) = (if b = 0 then NaN else if 0 < b then NegInf else PosInf)"
| "times_jsnum (Num a) PosInf = (if a = 0 then NaN else if 0 < a then PosInf else NegInf)"
| "times_jsnum (Num a) NegInf = (if a = 0 then NaN else if 0 < a then NegInf else PosInf)"
| "times_jsnum PosInf PosInf = PosInf"
| "times_jsnum NegInf NegInf = PosInf"
| "times_jsnum PosInf NegInf = NegInf"
| "times_jsnum NegInf PosInf = NegInf"

fun divide_jsnum :: "jsnum \<Rightarrow> jsnum \<Rightarrow> jsnum" where
  "divide_jsnum NaN _ = NaN"
| "divide_jsnum _ NaN = NaN"
| "divide_jsnum (Num a) (Num b) =
     (if b = 0 then (if a = 0 then NaN else if 0 < a then PosInf else NegInf)
      else Num (a / b))"
| "divide_jsnum (Num a) _ = Num 0"
| "divide_jsnum PosInf (Num b) = (if 0 \<le> b then PosInf else NegInf)"
| "divide_jsnum NegInf (Num b) = (if 0 \<le> b then NegInf else PosInf)"
| "divide_jsnum _ _ = NaN"

definition inverse_jsnum :: "jsnum \<Rightarrow> jsnum" where
  "inverse_jsnum x = divide (Num 1) x"

fun less_jsnum :: "jsnum \<Rightarrow> jsnum \<Rightarrow> bool" where
  "less_jsnum (Num a) (Num b) = (a < b)"
| "less_jsnum NegInf (Num b) = True"
| "less_jsnum NegInf PosInf = True"
| "less_jsnum (Num a) PosInf = True"
| "less_jsnum _ _ = False"

fun less_eq_jsnum :: "jsnum \<Rightarrow> jsnum \<Rightarrow> bool" where
  "less_eq_jsnum (Num a) (Num b) = (a \<le> b)"
| "less_eq_jsnum NegInf NegInf = True"
| "less_eq_jsnum NegInf (Num b) = True"
| "less_eq_jsnum NegInf PosInf = True"
| "less_eq_jsnum (Num a) PosInf = True"
| "less_eq_jsnum PosInf PosInf = True"
| "less_eq_jsnum _ _ = False"

instance ..

end

text \<open>\<open>Math.max\<close> and \<open>Math.min\<close> return NaN as soon as one argument is NaN.\<close>

fun Math_max :: "jsnum \<Rightarrow> jsnum \<Rightarrow> jsnum" where
  "Math_max NaN _ = NaN"
| "Math_max _ NaN = NaN"
| "Math_max PosInf _ = PosInf"
| "Math_max _ PosInf = PosInf"
| "Math_max NegInf b = b"
| "Math_max a NegInf = a"
| "Math_max (Num a) (Num b) = Num (max a b)"

fun Math_min :: "jsnum \<Rightarrow> jsnum \<Rightarrow> jsnum" where
  "Math_min NaN _ = NaN"
| "Math_min _ NaN = NaN"
| "Math_min NegInf _ = NegInf"
| "Math_min _ NegInf = NegInf"
| "Math_min PosInf b = b"
| "Math_min a PosInf = a"
| "Math_min (Num a) (Num b) = Num (min a b)"

fun Math_sqrt :: "jsnum \<Rightarrow> jsnum" where
  "Math_sqrt (Num a) = (if a < 0 then NaN else Num (sqrt a))"
| "Math_sqrt PosInf = PosInf"
| "Math_sqrt _ = NaN"

text \<open>\<open>Math.log10(0)\<close> is \<open>-Infinity\<close>; a negative argument gives NaN.\<close>

fun Math_log10 :: "jsnum \<Rightarrow> jsnum" where
  "Math_log10 (Num a) = (if a < 0 then NaN else if a = 0 then NegInf else Num (log 10 a))"
| "Math_log10 PosInf = PosInf"
| "Math_log10 _ = NaN"

text \<open>\<open>Math.round\<close> rounds to the nearest integer, a tie going up.\<close>

fun Math_round :: "jsnum \<Rightarrow> jsnum" where
  "Math_round (Num a) = Num (of_int \<lfloor>a + 1 / 2\<rfloor>)"
| "Math_round x = x"

fun Math_floor :: "jsnum \<Rightarrow> jsnum" where
  "Math_floor (Num a) = Num (of_int \<lfloor>a\<rfloor>)"
| "Math_floor x = x"

text \<open>Truthiness of a number, as \<open>!x\<close> and \<open>x || y\<close> test it: 0 and NaN are falsy.\<close>

fun truthy :: "jsnum \<Rightarrow> bool" where
  "truthy NaN = False"
| "truthy (Num a) = (a \<noteq> 0)"
| "truthy _ = True"

fun isFinite :: "jsnum \<Rightarrow> bool" where
  "isFinite (Num a) = True"
| "isFinite _ = False"

section \<open>Configuration constants (constants.js)\<close>

record level =
  lmax :: jsnum
  ltext :: string
  lclass :: string
  lcolor :: string

text \<open>The labels are Vietnamese; a string is the list of the bytes of its UTF-8 form.\<close>

definition DBA_LEVELS :: "level list" where
  "DBA_LEVELS =
    [\<lparr>lmax = Num 40,
      ltext = ''R'' @ [CHR 0xE1, CHR 0xBA, CHR 0xA5] @ ''t y'' @ [CHR 0xC3, CHR 0xAA]
              @ ''n t'' @ [CHR 0xC4, CHR 0xA9] @ ''nh'',
      lclass = ''level-quiet'', lcolor = ''#00ff88''\<rparr>,
     \<lparr>lmax = Num 60,
      ltext = ''Y'' @ [CHR 0xC3, CHR 0xAA] @ ''n t'' @ [CHR 0xC4, CHR 0xA9] @ ''nh'',
      lclass = ''level-quiet'', lcolor = ''#00ff88''\<rparr>,
     \<lparr>lmax = Num 70,
      ltext = ''V'' @ [CHR 0xE1, CHR 0xBB, CHR 0xAB] @ ''a ph''
              @ [CHR 0xE1, CHR 0xBA, CHR 0xA3] @ ''i'',
      lclass = ''level-moderate'', lcolor = ''#ffff00''\<rparr>,
     \<lparr>lmax = Num 85,
      ltext = [CHR 0xE1, CHR 0xBB, CHR 0x92] @ ''n'',
      lclass = ''level-loud'', lcolor = ''#ff9900''\<rparr>,
     \<lparr>lmax = PosInf,
      ltext = ''R'' @ [CHR 0xE1, CHR 0xBA, CHR 0xA5] @ ''t '' @ [CHR 0xE1, CHR 0xBB, CHR 0x93]
              @ ''n - C'' @ [CHR 0xC3, CHR 0xB3] @ '' h'' @ [CHR 0xE1, CHR 0xBA, CHR 0xA1]
              @ ''i!'',
      lclass = ''level-very-loud'', lcolor = ''#ff4444''\<rparr>]"

record audio_config =
  fftSize :: nat
  smoothingTimeConstant :: jsnum
  dbaSmoothing :: jsnum
  dbaOffset :: jsnum
  minDBA :: jsnum
  maxDBA :: jsnum
  displayUpdateInterval :: int

definition AUDIO_CONFIG :: audio_config where
  "AUDIO_CONFIG =
    \<lparr>fftSize = 2048, smoothingTimeConstant = Num 0.8, dbaSmoothing = Num 0.92,
     dbaOffset = Num 20, minDBA = Num 20, maxDBA = Num 120, displayUpdateInterval = 500\<rparr>"

section \<open>helpers.js: clamp\<close>

definition clamp :: "jsnum \<Rightarrow> jsnum \<Rightarrow> jsnum \<Rightarrow> jsnum" where
  "clamp value mn mx = Math_max mn (Math_min mx value)"

section \<open>AudioAnalyzer.js\<close>

text \<open>
  The fields of the analyzer that the level computation and the snapshots read and write.
  \<open>analyser\<close> and \<open>dbaAnalyser\<close> say whether the field holds a node (\<open>True\<close>) or \<open>null\<close>;
  \<open>dataArray\<close> and \<open>timeDataArray\<close> are the two \<open>Uint8Array\<close>s of the visualizer path, \<open>None\<close>
  for \<open>null\<close>.
\<close>

record AudioAnalyzer =
  analyser :: bool
  dbaAnalyser :: bool
  dataArray :: "nat list option"
  timeDataArray :: "nat list option"
  currentDBA :: jsnum
  displayDBA :: jsnum
  lastDisplayUpdate :: int

definition constructor :: AudioAnalyzer where
  "constructor =
    \<lparr>analyser = False, dbaAnalyser = False, dataArray = None, timeDataArray = None,
     currentDBA = Num 0, displayDBA = Num 0, lastDisplayUpdate = 0\<rparr>"

text \<open>
  \<open>setup\<close> creates both analyser nodes and the arrays, of \<open>frequencyBinCount\<close> (half the FFT
  size) and \<open>fftSize\<close> zero bytes; the audio graph itself is not modelled.
\<close>

definition setup_stream :: "AudioAnalyzer \<Rightarrow> AudioAnalyzer" where
  "setup_stream s =
    s\<lparr>analyser := True, dbaAnalyser := True,
      dataArray := Some (replicate (fftSize AUDIO_CONFIG div 2) 0),
      timeDataArray := Some (replicate (fftSize AUDIO_CONFIG) 0)\<rparr>"


text \<open>
  \<open>getByteFrequencyData(array)\<close> and \<open>getByteTimeDomainData(array)\<close> overwrite the array with
  the bytes the node delivers, as far as the array reaches: the array keeps its length.
  \<open>getFrequencyData\<close> and \<open>getTimeDomainData\<close> refresh their array when the analyser node
  exists, and return it.
\<close>

definition fill :: "nat list \<Rightarrow> nat list \<Rightarrow> nat list" where
  "fill bytes array = take (length array) bytes @ drop (length bytes) array"

definition getFrequencyData :: "nat list \<Rightarrow> AudioAnalyzer \<Rightarrow> nat list option \<times> AudioAnalyzer" where
  "getFrequencyData bytes s =
    (let s' = (if analyser s then s\<lparr>dataArray := map_option (fill bytes) (dataArray s)\<rparr> else s)
     in (dataArray s', s'))"

definition getTimeDomainData :: "nat list \<Rightarrow> AudioAnalyzer \<Rightarrow> nat list option \<times> AudioAnalyzer" where
  "getTimeDomainData bytes s =
    (let s' = (if analyser s then s\<lparr>timeDataArray := map_option (fill bytes) (timeDataArray s)\<rparr>
               else s)
     in (timeDataArray s', s'))"


record iir_filter =
  feedforward :: "real list"
  feedback :: "real list"

definition createIIRFilter :: "real list \<Rightarrow> real list \<Rightarrow> iir_filter" where
  "createIIRFilter b a = \<lparr>feedforward = b, feedback = a\<rparr>"

text \<open>
  \<open>createAWeightingFilters\<close>: the filters pushed for the context's sample rate, and
  whether the calibration warning was written to the console.
\<close>

definition createAWeightingFilters :: "jsnum \<Rightarrow> iir_filter list \<times> bool" where
  "createAWeightingFilters sampleRate =
    (if sampleRate = Num 44100 then
       ([createIIRFilter [0.95616638497, -1.31960414122, 0.36343775625]
                         [1, -1.31861375911, 0.32059452332],
         createIIRFilter [0.94317138580, -1.88634277160, 0.94317138580]
                         [1, -1.88558607420, 0.88709946900]], False)
     else if sampleRate = Num 48000 then
       ([createIIRFilter [0.96525096525, -1.34730163086, 0.38205066561]
                         [1, -1.34730722798, 0.34905752979],
         createIIRFilter [0.94696969696, -1.89393939393, 0.94696969696]
                         [1, -1.89387049481, 0.89515976917]], False)
     else if Num 46000 < sampleRate then
       ([createIIRFilter [0.96525096525, -1.34730163086, 0.38205066561]
                         [1, -1.34730722798, 0.34905752979],
         createIIRFilter [0.94696969696, -1.89393939393, 0.94696969696]
                         [1, -1.89387049481, 0.89515976917]], True)
     else
       ([createIIRFilter [0.95616638497, -1.31960414122, 0.36343775625]
                         [1, -1.31861375911, 0.32059452332],
         createIIRFilter [0.94317138580, -1.88634277160, 0.94317138580]
                         [1, -1.88558607420, 0.88709946900]], True))"

text \<open>The two calibrated coefficient sets, as the comments of the source name them.\<close>

definition coefficients_44100 :: "iir_filter list" where
  "coefficients_44100 =
    [\<lparr>feedforward = [0.95616638497, -1.31960414122, 0.36343775625],
      feedback = [1, -1.31861375911, 0.32059452332]\<rparr>,
     \<lparr>feedforward = [0.94317138580, -1.88634277160, 0.94317138580],
      feedback = [1, -1.88558607420, 0.88709946900]\<rparr>]"

definition coefficients_48000 :: "iir_filter list" where
  "coefficients_48000 =
    [\<lparr>feedforward = [0.96525096525, -1.34730163086, 0.38205066561],
      feedback = [1, -1.34730722798, 0.34905752979]\<rparr>,
     \<lparr>feedforward = [0.94696969696, -1.89393939393, 0.94696969696],
      feedback = [1, -1.89387049481, 0.89515976917]\<rparr>]"

text \<open>
  \<open>calculateDBA\<close>.  The argument \<open>buf\<close> is what \<open>getFloatTimeDomainData\<close> writes into
  \<open>dbaDataArray\<close> for this frame.  The locals \<open>sum\<close>, \<open>rms\<close>, \<open>dba\<close> and \<open>clampedDBA\<close> of
  the source are functions of that buffer.  The call also refreshes \<open>dataArray\<close>; every
  reader of that array refreshes it again through \<open>getFrequencyData\<close>, so the refresh here is
  left out.
\<close>

fun sum_loop :: "jsnum \<Rightarrow> jsnum list \<Rightarrow> jsnum" where
  "sum_loop acc [] = acc"
| "sum_loop acc (x # xs) = sum_loop (acc + x * x) xs"

definition rms :: "jsnum list \<Rightarrow> jsnum" where
  "rms buf = Math_sqrt (sum_loop (Num 0) buf / Num (real (length buf)))"

definition dba :: "jsnum list \<Rightarrow> jsnum" where
  "dba buf = Num 20 * Math_log10 (rms buf / Num 1) + dbaOffset AUDIO_CONFIG"

definition clampedDBA :: "jsnum list \<Rightarrow> jsnum" where
  "clampedDBA buf = clamp (dba buf) (minDBA AUDIO_CONFIG) (maxDBA AUDIO_CONFIG)"

definition calculateDBA :: "jsnum list \<Rightarrow> AudioAnalyzer \<Rightarrow> jsnum \<times> AudioAnalyzer" where
  "calculateDBA buf s =
    (if \<not> analyser s then (Num 0, s)
     else if \<not> dbaAnalyser s then (Num 0, s)
     else
       let s' = s\<lparr>currentDBA :=
                  currentDBA s * dbaSmoothing AUDIO_CONFIG
                  + clampedDBA buf * (Num 1 - dbaSmoothing AUDIO_CONFIG)\<rparr>
       in (Math_round (currentDBA s'), s'))"

text \<open>\<open>getDisplayDBA\<close>; \<open>now\<close> is the value of \<open>Date.now()\<close>, in milliseconds.\<close>

definition getDisplayDBA :: "int \<Rightarrow> AudioAnalyzer \<Rightarrow> jsnum \<times> AudioAnalyzer" where
  "getDisplayDBA now s =
    (let s' = (if lastDisplayUpdate s = 0
                  \<or> now - lastDisplayUpdate s \<ge> displayUpdateInterval AUDIO_CONFIG
               then s\<lparr>displayDBA := Math_round (currentDBA s), lastDisplayUpdate := now\<rparr>
               else s)
     in (if truthy (displayDBA s') then displayDBA s' else Math_round (currentDBA s'), s'))"

definition getCurrentDBA :: "AudioAnalyzer \<Rightarrow> jsnum" where
  "getCurrentDBA s = currentDBA s"

text \<open>\<open>getDBALevel\<close>: the scan of the band list, then the fallback to the last band.\<close>

record level_info =
  text_of :: string
  class_of :: string
  color_of :: string

definition info :: "level \<Rightarrow> level_info" where
  "info l = \<lparr>text_of = ltext l, class_of = lclass l, color_of = lcolor l\<rparr>"

fun scan_levels :: "level list \<Rightarrow> jsnum \<Rightarrow> level_info option" where
  "scan_levels [] d = None"
| "scan_levels (l # ls) d = (if d < lmax l then Some (info l) else scan_levels ls d)"

definition getDBALevel :: "jsnum \<Rightarrow> level_info" where
  "getDBALevel d =
    (case scan_levels DBA_LEVELS d of
       Some r \<Rightarrow> r
     | None \<Rightarrow> info (DBA_LEVELS ! (length DBA_LEVELS - 1)))"

definition getVisualizerColor :: "AudioAnalyzer \<Rightarrow> string" where
  "getVisualizerColor s = color_of (getDBALevel (currentDBA s))"

text \<open>
  The frame loop of app.js calls \<open>calculateDBA\<close> once per animation frame; \<open>frames\<close> runs it
  over the buffers of consecutive frames and collects the returned values.
\<close>

fun frames :: "jsnum list list \<Rightarrow> AudioAnalyzer \<Rightarrow> jsnum list \<times> AudioAnalyzer" where
  "frames [] s = ([], s)"
| "frames (buf # bufs) s =
     (let (r, s') = calculateDBA buf s; (rs, s'') = frames bufs s' in (r # rs, s''))"






section \<open>GeolocationManager: the coordinate strings\<close>

text \<open>
  \<open>Number.prototype.toFixed\<close> on a finite number.  Below \<open>10^21\<close> in magnitude the result
  is the sign, the digits of the nearest multiple of \<open>10^-f\<close> (a tie going to the larger
  one) and a decimal point before the last \<open>f\<close> digits.  From \<open>10^21\<close> on, JavaScript
  prints the number as \<open>String(x)\<close> does; that conversion is the parameter \<open>toStr\<close>.
\<close>

definition digit_char :: "nat \<Rightarrow> char" where
  "digit_char d = ''0123456789'' ! d"

function digits10 :: "nat \<Rightarrow> string" where
  "digits10 n = (if n < 10 then [digit_char n] else digits10 (n div 10) @ [digit_char (n mod 10)])"
  by pat_completeness auto
termination
  by (relation "measure (\<lambda>n. n)") auto

declare digits10.simps [simp del]

definition toFixed :: "(real \<Rightarrow> string) \<Rightarrow> real \<Rightarrow> nat \<Rightarrow> string" where
  "toFixed toStr x f =
    (if 10 ^ 21 \<le> \<bar>x\<bar> then toStr x
     else
       let s = (if x < 0 then ''-'' else []);
           n = nat \<lfloor>\<bar>x\<bar> * 10 ^ f + 1 / 2\<rfloor>;
           m = digits10 n
       in if f \<noteq> 0 then
            let m' = (if length m \<le> f then replicate (f + 1 - length m) (CHR ''0'') @ m else m);
                k = length m'
            in s @ take (k - f) m' @ ''.'' @ drop (k - f) m'
          else s @ m)"

record position =
  coords_latitude :: real
  coords_longitude :: real

record GeolocationManager =
  gm_latitude :: "string option"
  gm_longitude :: "string option"

definition new_GeolocationManager :: GeolocationManager where
  "new_GeolocationManager = \<lparr>gm_latitude = None, gm_longitude = None\<rparr>"

text \<open>
  \<open>handleSuccess\<close> stores both coordinates and passes the pair to \<open>notify\<close>; the result is
  the new state and the notified message.  The position watch it then starts stores
  later positions in the same way.
\<close>

definition handleSuccess ::
  "(real \<Rightarrow> string) \<Rightarrow> position \<Rightarrow> GeolocationManager \<Rightarrow> GeolocationManager \<times> string" where
  "handleSuccess toStr pos g =
    (let lat = toFixed toStr (coords_latitude pos) 6;
         lon = toFixed toStr (coords_longitude pos) 6
     in (g\<lparr>gm_latitude := Some lat, gm_longitude := Some lon\<rparr>, lat @ '', '' @ lon))"

section \<open>Overlay configuration (constants.js)\<close>

definition baseWidthPortrait :: jsnum where "baseWidthPortrait = Num 720"
definition baseWidthLandscape :: jsnum where "baseWidthLandscape = Num 1920"
definition minScale :: jsnum where "minScale = Num 0.5"

definition dbaBox_widthPortrait :: jsnum where "dbaBox_widthPortrait = Num 120"
definition dbaBox_widthLandscape :: jsnum where "dbaBox_widthLandscape = Num 160"
definition dbaBox_heightPortrait :: jsnum where "dbaBox_heightPortrait = Num 120"
definition dbaBox_heightLandscape :: jsnum where "dbaBox_heightLandscape = Num 140"
definition dbaBox_borderRadius :: jsnum where "dbaBox_borderRadius = Num 15"
definition dbaBox_background :: string where "dbaBox_background = ''rgba(0, 0, 0, 0.8)''"
definition dbaBox_borderColor :: string where "dbaBox_borderColor = ''rgba(255, 255, 255, 0.25)''"
definition dbaBox_borderWidth :: jsnum where "dbaBox_borderWidth = Num 2"

definition infoBox_widthPortrait :: jsnum where "infoBox_widthPortrait = Num 200"
definition infoBox_widthLandscape :: jsnum where "infoBox_widthLandscape = Num 280"
definition infoBox_heightPortrait :: jsnum where "infoBox_heightPortrait = Num 50"
definition infoBox_heightLandscape :: jsnum where "infoBox_heightLandscape = Num 70"
definition infoBox_borderRadius :: jsnum where "infoBox_borderRadius = Num 12"

definition recIndicator_widthPortrait :: jsnum where "recIndicator_widthPortrait = Num 60"
definition recIndicator_widthLandscape :: jsnum where "recIndicator_widthLandscape = Num 90"
definition recIndicator_heightPortrait :: jsnum where "recIndicator_heightPortrait = Num 24"
definition recIndicator_heightLandscape :: jsnum where "recIndicator_heightLandscape = Num 32"
definition recIndicator_background :: string where
  "recIndicator_background = ''rgba(255, 0, 0, 0.9)''"

definition miniVisualizer_heightPortrait :: jsnum where "miniVisualizer_heightPortrait = Num 60"
definition miniVisualizer_heightLandscape :: jsnum where "miniVisualizer_heightLandscape = Num 100"
definition miniVisualizer_bottomOffsetPortrait :: jsnum where
  "miniVisualizer_bottomOffsetPortrait = Num 80"
definition miniVisualizer_bottomOffsetLandscape :: jsnum where
  "miniVisualizer_bottomOffsetLandscape = Num 100"
definition miniVisualizer_paddingRatio :: jsnum where "miniVisualizer_paddingRatio = Num 0.028"
definition miniVisualizer_minPadding :: jsnum where "miniVisualizer_minPadding = Num 20"
definition miniVisualizer_maxWidthRatio :: jsnum where "miniVisualizer_maxWidthRatio = Num 0.5"
definition miniVisualizer_maxWidth :: jsnum where "miniVisualizer_maxWidth = Num 180"
definition miniVisualizer_borderRadius :: jsnum where "miniVisualizer_borderRadius = Num 10"
definition miniVisualizer_background :: string where
  "miniVisualizer_background = ''rgba(0, 0, 0, 0.7)''"
definition miniVisualizer_innerPadding :: jsnum where "miniVisualizer_innerPadding = Num 6"

definition watermark_text :: string where "watermark_text = ''DBA Noise Meter''"
definition watermark_color :: string where "watermark_color = ''rgba(255, 255, 255, 0.4)''"
definition watermark_bottomOffset :: jsnum where "watermark_bottomOffset = Num 8"

definition barCount :: nat where "barCount = 64"
definition barCountMobile :: nat where "barCountMobile = 32"
definition waveformSamples :: nat where "waveformSamples = 256"

section \<open>The canvas\<close>

text \<open>
  The overlay writes to a \<open>CanvasRenderingContext2D\<close>.  Its effect is the list of the
  calls and property assignments it makes, in order.  A fill or stroke style is a CSS
  colour string, the value of \<open>hexToRgba(hex, alpha)\<close> (kept as the call), or a linear
  gradient with its colour stops.  A font is \<open>bold <size>px Arial\<close> or \<open><size>px Arial\<close>.
  The text of \<open>fillText\<close> is a string, or a number the canvas converts to one.
\<close>

datatype paint =
    Css string
  | HexToRgba string jsnum
  | LinearGradient jsnum jsnum jsnum jsnum "(jsnum \<times> string) list"

datatype js_text = Str string | NumStr jsnum

datatype canvas_op =
    FillStyle paint
  | StrokeStyle paint
  | LineWidth jsnum
  | Font bool jsnum
  | TextAlign string
  | TextBaseline string
  | ShadowColor string
  | ShadowBlur jsnum
  | BeginPath
  | RoundRect jsnum jsnum jsnum jsnum jsnum
  | Arc jsnum jsnum jsnum jsnum jsnum
  | MoveTo jsnum jsnum
  | LineTo jsnum jsnum
  | Fill
  | Stroke
  | Clip
  | Save
  | Restore
  | FillRect jsnum jsnum jsnum jsnum
  | FillText js_text jsnum jsnum

text \<open>
  What the overlay reads from its surroundings: the width \<open>measureText\<close> reports for a
  text in the font set just before (bold flag and pixel size), and the string
  \<open>formatDateTimeForOverlay(new Date())\<close> of the moment of the call.
\<close>

record environment =
  measureText :: "bool \<Rightarrow> jsnum \<Rightarrow> string \<Rightarrow> jsnum"
  dateStr :: string

text \<open>
  \<open>createLinearGradient\<close> takes four \<open>double\<close> arguments: a NaN or an infinity among them
  makes the call throw a \<open>TypeError\<close>.  The other calls the overlay makes accept such
  arguments and then draw nothing.  A negative radius would make the canvas's own
  \<open>roundRect\<close> and \<open>arc\<close> throw; every radius the overlay passes is a positive constant
  times the scale, or half of such a product, and the scale is never below \<open>minScale\<close>.
  On a canvas without a \<open>roundRect\<close> of its own the repository's polyfill runs instead,
  and \<open>arcTo\<close> inside it throws an \<open>IndexSizeError\<close> for a negative radius.
\<close>

datatype js_error = TypeError | IndexSizeError

section \<open>CanvasOverlay\<close>

text \<open>The \<open>data\<close> argument of \<open>draw\<close>; \<open>None\<close> is \<open>null\<close>.\<close>

record overlay_data =
  data_currentDBA :: jsnum
  dbaColor :: string
  data_level :: level_info
  latitude :: "string option"
  longitude :: "string option"
  isRecording :: bool
  frequencyData :: "nat list option"
  timeData :: "nat list option"

text \<open>
  The two fields the overlay object keeps between drawing steps; \<open>None\<close> is a field that
  was never assigned.  The fallback object of \<open>drawRecordingIndicator\<close> has no \<open>y\<close>, which
  in arithmetic is NaN.
\<close>

record box =
  box_x :: jsnum
  box_y :: jsnum
  box_width :: jsnum
  box_height :: jsnum

record CanvasOverlay =
  lastInfoBox :: "box option"
  lastDbaX :: "jsnum option"

definition new_CanvasOverlay :: CanvasOverlay where
  "new_CanvasOverlay = \<lparr>lastInfoBox = None, lastDbaX = None\<rparr>"

definition calculateScale :: "jsnum \<Rightarrow> jsnum \<Rightarrow> bool \<Rightarrow> jsnum \<times> jsnum \<times> jsnum" where
  "calculateScale width height isPortrait =
    (let baseWidth = (if isPortrait then baseWidthPortrait else baseWidthLandscape);
         baseScale = width / baseWidth;
         scale = Math_max minScale baseScale;
         fontSize = Math_max (Num 14) (Num 22 * scale);
         padding = Math_max (Num 20) (Num 30 * scale)
     in (scale, fontSize, padding))"

definition drawLevelPill ::
  "environment \<Rightarrow> jsnum \<Rightarrow> jsnum \<Rightarrow> jsnum \<Rightarrow> jsnum \<Rightarrow> jsnum \<Rightarrow> jsnum \<Rightarrow> overlay_data
     \<Rightarrow> canvas_op list" where
  "drawLevelPill env boxX boxY boxWidth boxHeight scale fontSize data =
    (let levelText = text_of (data_level data);
         levelWidth = Math_min (measureText env True (fontSize * Num 0.6) levelText + Num 20 * scale)
                               (boxWidth - Num 16 * scale);
         levelHeight = Num 22 * scale;
         levelX = boxX + (boxWidth - levelWidth) / Num 2;
         levelY = boxY + boxHeight * Num 0.72
     in [Font True (fontSize * Num 0.6),
         FillStyle (HexToRgba (dbaColor data) (Num 0.3)),
         BeginPath,
         RoundRect levelX levelY levelWidth levelHeight (Num 10 * scale),
         Fill,
         FillStyle (Css (dbaColor data)),
         TextAlign ''center'',
         FillText (Str levelText) (boxX + boxWidth / Num 2) (levelY + levelHeight / Num 2)])"

definition drawDBABox ::
  "environment \<Rightarrow> jsnum \<Rightarrow> jsnum \<Rightarrow> jsnum \<Rightarrow> jsnum \<Rightarrow> jsnum \<Rightarrow> bool \<Rightarrow> overlay_data
     \<Rightarrow> canvas_op list" where
  "drawDBABox env width height scale fontSize padding isPortrait data =
    (let boxWidth = (if isPortrait then dbaBox_widthPortrait * scale
                     else dbaBox_widthLandscape * scale);
         boxHeight = (if isPortrait then dbaBox_heightPortrait * scale
                      else dbaBox_heightLandscape * scale);
         x = width - boxWidth - padding;
         y = padding;
         dbaFontSize = (if isPortrait then fontSize * Num 2.0 else fontSize * Num 2.8)
     in [FillStyle (Css dbaBox_background),
         BeginPath,
         RoundRect x y boxWidth boxHeight (dbaBox_borderRadius * scale),
         Fill,
         StrokeStyle (Css dbaBox_borderColor),
         LineWidth (dbaBox_borderWidth * scale),
         Stroke,
         FillStyle (Css (dbaColor data)),
         Font True dbaFontSize,
         TextAlign ''center'',
         TextBaseline ''middle'',
         ShadowColor (dbaColor data),
         ShadowBlur (Num 15 * scale),
         FillText (NumStr (Math_round (data_currentDBA data)))
                  (x + boxWidth / Num 2) (y + boxHeight * Num 0.28),
         ShadowBlur (Num 0),
         FillStyle (Css ''rgba(255, 255, 255, 0.85)''),
         Font False (fontSize * Num 0.85),
         FillText (Str ''dBA'') (x + boxWidth / Num 2) (y + boxHeight * Num 0.52)]
        @ drawLevelPill env x y boxWidth boxHeight scale fontSize data)"

text \<open>
  The location line of the info box.  \<open>data.latitude && data.longitude\<close> holds when both
  are strings and neither is empty.  The pin symbol U+2316 and the stopwatch symbol
  U+23F1 are written as their UTF-8 bytes.
\<close>

definition pin_symbol :: string where
  "pin_symbol = [CHR 0xE2, CHR 0x8C, CHR 0x96]"

definition stopwatch_symbol :: string where
  "stopwatch_symbol = [CHR 0xE2, CHR 0x8F, CHR 0xB1]"

fun present :: "string option \<Rightarrow> bool" where
  "present None = False"
| "present (Some s) = (s \<noteq> [])"

definition locationStr :: "overlay_data \<Rightarrow> string" where
  "locationStr data =
    (if present (latitude data) \<and> present (longitude data)
     then pin_symbol @ '' '' @ the (latitude data) @ '', '' @ the (longitude data)
     else pin_symbol @ '' N/A'')"

definition drawInfoBox ::
  "environment \<Rightarrow> jsnum \<Rightarrow> jsnum \<Rightarrow> jsnum \<Rightarrow> jsnum \<Rightarrow> jsnum \<Rightarrow> bool \<Rightarrow> overlay_data
     \<Rightarrow> CanvasOverlay \<Rightarrow> CanvasOverlay \<times> canvas_op list" where
  "drawInfoBox env width height scale fontSize padding isPortrait data this =
    (let dbaBoxWidth = (if isPortrait then dbaBox_widthPortrait * scale
                        else dbaBox_widthLandscape * scale);
         boxWidth = (if isPortrait
                     then Math_min (infoBox_widthPortrait * scale)
                                   (width - dbaBoxWidth - padding * Num 3)
                     else infoBox_widthLandscape * scale);
         boxHeight = (if isPortrait then infoBox_heightPortrait * scale
                      else infoBox_heightLandscape * scale);
         x = padding;
         y = padding;
         this' = this\<lparr>lastInfoBox :=
                         Some \<lparr>box_x = x, box_y = y, box_width = boxWidth, box_height = boxHeight\<rparr>,
                       lastDbaX := Some (width - dbaBoxWidth - padding)\<rparr>;
         infoFontSize = (if isPortrait then fontSize * Num 0.7 else fontSize * Num 0.85)
     in (this',
         [FillStyle (Css dbaBox_background),
          BeginPath,
          RoundRect x y boxWidth boxHeight (infoBox_borderRadius * scale),
          Fill,
          StrokeStyle (Css dbaBox_borderColor),
          LineWidth (dbaBox_borderWidth * scale),
          Stroke,
          FillStyle (Css ''#ffffff''),
          Font True infoFontSize,
          TextAlign ''left'',
          TextBaseline ''middle'',
          FillText (Str (stopwatch_symbol @ '' '' @ dateStr env))
                   (x + Num 8 * scale) (y + boxHeight * Num 0.35),
          FillStyle (Css ''#aaaaaa''),
          Font False (infoFontSize * Num 0.9),
          FillText (Str (locationStr data)) (x + Num 8 * scale) (y + boxHeight * Num 0.7)]))"

definition drawRecordingIndicator ::
  "environment \<Rightarrow> jsnum \<Rightarrow> jsnum \<Rightarrow> jsnum \<Rightarrow> jsnum \<Rightarrow> jsnum \<Rightarrow> bool \<Rightarrow> overlay_data
     \<Rightarrow> CanvasOverlay \<Rightarrow> canvas_op list" where
  "drawRecordingIndicator env width height scale fontSize padding isPortrait data this =
    (let recWidth = (if isPortrait then recIndicator_widthPortrait * scale
                     else recIndicator_widthLandscape * scale);
         recHeight = (if isPortrait then recIndicator_heightPortrait * scale
                      else recIndicator_heightLandscape * scale);
         infoBox = (case lastInfoBox this of
                      Some b \<Rightarrow> b
                    | None \<Rightarrow> \<lparr>box_x = padding, box_y = NaN, box_width = Num 200 * scale,
                               box_height = Num 50 * scale\<rparr>);
         dbaX = (case lastDbaX this of
                   Some v \<Rightarrow> if truthy v then v else width - Num 160 * scale - padding
                 | None \<Rightarrow> width - Num 160 * scale - padding);
         recX = box_x infoBox + box_width infoBox + Num 10 * scale;
         recY = box_y infoBox + (box_height infoBox - recHeight) / Num 2
     in if recX + recWidth \<ge> dbaX - Num 5 * scale then []
        else
          [FillStyle (Css recIndicator_background),
           BeginPath,
           RoundRect recX recY recWidth recHeight (recHeight / Num 2),
           Fill,
           FillStyle (Css ''#ffffff''),
           BeginPath,
           Arc (recX + recWidth * Num 0.3) (recY + recHeight / Num 2) (Num 4 * scale)
               (Num 0) (Num pi * Num 2),
           Fill,
           FillStyle (Css ''#ffffff''),
           Font True (fontSize * Num 0.6),
           TextAlign ''center'',
           FillText (Str ''REC'') (recX + recWidth * Num 0.65) (recY + recHeight / Num 2)])"

text \<open>
  Reading a \<open>Uint8Array\<close> at a number: an index that is no element of the array yields
  \<open>undefined\<close>, which the division that follows every such read turns into NaN.
\<close>

definition uint8_at :: "nat list \<Rightarrow> jsnum \<Rightarrow> jsnum" where
  "uint8_at xs i =
    (case i of
       Num r \<Rightarrow> if 0 \<le> r \<and> r < real (length xs) \<and> of_int \<lfloor>r\<rfloor> = r
                then Num (real (xs ! nat \<lfloor>r\<rfloor>)) else NaN
     | _ \<Rightarrow> NaN)"

text \<open>
  The bar loop of \<open>drawMiniVisualizer\<close>, over the indices still to draw.  It stops at the
  first bar whose gradient cannot be created; the bars drawn before stay drawn.
\<close>

fun bars_loop ::
  "nat list \<Rightarrow> jsnum \<Rightarrow> jsnum \<Rightarrow> jsnum \<Rightarrow> jsnum \<Rightarrow> jsnum \<Rightarrow> nat \<Rightarrow> nat list
     \<Rightarrow> canvas_op list \<times> js_error option" where
  "bars_loop freq vizX vizY vizHeight innerPadding barWidth n [] = ([], None)"
| "bars_loop freq vizX vizY vizHeight innerPadding barWidth n (i # is) =
    (let dataIndex = Math_floor (Num (real i) * (Num (real (length freq)) / Num (real n)));
         maxBarHeight = vizHeight - innerPadding * Num 2;
         barHeight = Math_max (Num 2) (uint8_at freq dataIndex / Num 255 * maxBarHeight);
         barX = vizX + innerPadding + Num (real i) * (barWidth + Num 1);
         barY = vizY + vizHeight - innerPadding - barHeight
     in if \<not> (isFinite (barY + barHeight) \<and> isFinite barY) then ([], Some TypeError)
        else
          let (ops, err) = bars_loop freq vizX vizY vizHeight innerPadding barWidth n is
          in (FillStyle (LinearGradient (Num 0) (barY + barHeight) (Num 0) barY
                           [(Num 0, ''rgba(0, 255, 136, 0.9)''),
                            (Num 0.4, ''rgba(255, 255, 0, 0.9)''),
                            (Num 0.7, ''rgba(255, 153, 0, 0.9)''),
                            (Num 1, ''rgba(255, 68, 68, 0.9)'')])
              # FillRect barX barY (barWidth - Num 1) barHeight
              # ops, err))"

text \<open>The waveform loop; \<open>x\<close> is the running abscissa.\<close>

fun wave_loop ::
  "nat list \<Rightarrow> jsnum \<Rightarrow> jsnum \<Rightarrow> nat \<Rightarrow> jsnum \<Rightarrow> jsnum \<Rightarrow> nat list \<Rightarrow> canvas_op list" where
  "wave_loop tdata vizY vizHeight samples sliceWidth x [] = []"
| "wave_loop tdata vizY vizHeight samples sliceWidth x (i # is) =
    (let sampleIndex = Math_floor (Num (real i) * Num (real (length tdata)) / Num (real samples));
         v = uint8_at tdata sampleIndex / Num 128;
         y = vizY + vizHeight / Num 2 + ((v - Num 1) * vizHeight * Num 0.4)
     in (if i = 0 then MoveTo x y else LineTo x y)
        # wave_loop tdata vizY vizHeight samples sliceWidth (x + sliceWidth) is)"

definition drawMiniVisualizer ::
  "environment \<Rightarrow> jsnum \<Rightarrow> jsnum \<Rightarrow> jsnum \<Rightarrow> jsnum \<Rightarrow> bool \<Rightarrow> overlay_data
     \<Rightarrow> canvas_op list \<times> js_error option" where
  "drawMiniVisualizer env width height scale padding isPortrait data =
    (if frequencyData data = None \<or> timeData data = None then ([], None)
     else
       let freq = the (frequencyData data);
           tdata = the (timeData data);
           vizHeight = (if isPortrait then miniVisualizer_heightPortrait * scale
                        else miniVisualizer_heightLandscape * scale);
           vizY = height - vizHeight
                  - (if isPortrait then miniVisualizer_bottomOffsetPortrait * scale
                     else miniVisualizer_bottomOffsetLandscape * scale);
           vizPadding = Math_max miniVisualizer_minPadding (width * miniVisualizer_paddingRatio);
           vizX = vizPadding;
           vizWidth = Math_min (width * miniVisualizer_maxWidthRatio)
                               (miniVisualizer_maxWidth * scale);
           n = (if isPortrait then barCountMobile else barCount);
           innerPadding = miniVisualizer_innerPadding * scale;
           totalBarSpace = vizWidth - innerPadding * Num 2;
           barWidth = totalBarSpace / Num (real n) - Num 1;
           (bars, err) = bars_loop freq vizX vizY vizHeight innerPadding barWidth n [0..<n];
           background =
             [Save,
              BeginPath,
              RoundRect vizX vizY vizWidth vizHeight (miniVisualizer_borderRadius * scale),
              FillStyle (Css miniVisualizer_background),
              Fill,
              Clip]
       in case err of
            Some e \<Rightarrow> (background @ bars, Some e)
          | None \<Rightarrow>
              let samples = min (length tdata) waveformSamples;
                  sliceWidth = vizWidth / Num (real samples)
              in (background @ bars
                  @ [LineWidth (Num 2 * scale), StrokeStyle (Css (dbaColor data)), BeginPath]
                  @ wave_loop tdata vizY vizHeight samples sliceWidth vizX [0..<samples]
                  @ [Stroke, Restore],
                  None))"

definition drawWatermark ::
  "environment \<Rightarrow> jsnum \<Rightarrow> jsnum \<Rightarrow> jsnum \<Rightarrow> jsnum \<Rightarrow> canvas_op list" where
  "drawWatermark env width height scale fontSize =
    [FillStyle (Css watermark_color),
     Font False (fontSize * Num 0.6),
     TextAlign ''center'',
     TextBaseline ''bottom'',
     FillText (Str watermark_text) (width / Num 2) (height - watermark_bottomOffset * scale)]"

text \<open>
  \<open>draw\<close>, on a canvas that has \<open>roundRect\<close> of its own.  Every call on the canvas is
  recorded with the element whose drawing step made it.  The result is the overlay object
  after the call, the recorded calls, and the exception that ended the call, if one did;
  the steps after a throwing step do not run.
\<close>

datatype element = DbaBox | InfoBox | RecIndicator | MiniVisualizer | Watermark

definition tag :: "element \<Rightarrow> canvas_op list \<Rightarrow> (element \<times> canvas_op) list" where
  "tag e ops = map (Pair e) ops"

record draw_result =
  overlay :: CanvasOverlay
  calls :: "(element \<times> canvas_op) list"
  thrown :: "js_error option"

definition draw ::
  "environment \<Rightarrow> jsnum \<Rightarrow> jsnum \<Rightarrow> overlay_data \<Rightarrow> CanvasOverlay \<Rightarrow> draw_result" where
  "draw env width height data this =
    (let isPortrait = (height > width);
         (scale, fontSize, padding) = calculateScale width height isPortrait;
         dbaBox = drawDBABox env width height scale fontSize padding isPortrait data;
         (this', infoBox) = drawInfoBox env width height scale fontSize padding isPortrait data this;
         rec = (if isRecording data
                then drawRecordingIndicator env width height scale fontSize padding isPortrait
                       data this'
                else []);
         (mini, err) = drawMiniVisualizer env width height scale padding isPortrait data;
         mark = (case err of
                   None \<Rightarrow> drawWatermark env width height scale fontSize
                 | Some e \<Rightarrow> [])
     in \<lparr>overlay = this',
         calls = tag DbaBox dbaBox @ tag InfoBox infoBox @ tag RecIndicator rec
                 @ tag MiniVisualizer mini @ tag Watermark mark,
         thrown = err\<rparr>)"

text \<open>The calls one element's drawing step made.\<close>

definition calls_of :: "element \<Rightarrow> draw_result \<Rightarrow> canvas_op list" where
  "calls_of e r = map snd (filter (\<lambda>c. fst c = e) (calls r))"







text \<open>
  \<open>getOverlayData\<close> of app.js builds the argument of \<open>draw\<close> from the analyzer, the
  geolocation manager and the recording flag; \<open>spectrum\<close> and \<open>wave\<close> are the bytes the
  analyser node delivers at that moment.
\<close>

definition getOverlayData ::
  "AudioAnalyzer \<Rightarrow> GeolocationManager \<Rightarrow> bool \<Rightarrow> nat list \<Rightarrow> nat list \<Rightarrow> overlay_data" where
  "getOverlayData analyzer geolocation recording spectrum wave =
    \<lparr>data_currentDBA = getCurrentDBA analyzer,
     dbaColor = getVisualizerColor analyzer,
     data_level = getDBALevel (getCurrentDBA analyzer),
     latitude = gm_latitude geolocation,
     longitude = gm_longitude geolocation,
     isRecording = recording,
     frequencyData = fst (getFrequencyData spectrum analyzer),
     timeData = fst (getTimeDomainData wave analyzer)\<rparr>"

section \<open>The layout quantities of the recording-badge rule\<close>

text \<open>
  The quantities the rule for the recording badge is stated in, for a surface of width
  \<open>w\<close> and height \<open>h\<close>: the scale and the padding, the left edge \<open>dbaX\<close> of the dBA box, the
  left edge and the width of the info box, and the left edge \<open>recX\<close> and the width of the
  badge.
\<close>

definition scale_of :: "real \<Rightarrow> real \<Rightarrow> real" where
  "scale_of w h = max 0.5 (w / (if w < h then 720 else 1920))"

definition padding_of :: "real \<Rightarrow> real \<Rightarrow> real" where
  "padding_of w h = max 20 (30 * scale_of w h)"

definition dbaX_of :: "real \<Rightarrow> real \<Rightarrow> real" where
  "dbaX_of w h = w - (if w < h then 120 else 160) * scale_of w h - padding_of w h"

definition infoBoxX_of :: "real \<Rightarrow> real \<Rightarrow> real" where
  "infoBoxX_of w h = padding_of w h"

definition infoBoxWidth_of :: "real \<Rightarrow> real \<Rightarrow> real" where
  "infoBoxWidth_of w h =
    (if w < h then min (200 * scale_of w h) (w - 120 * scale_of w h - padding_of w h * 3)
     else 280 * scale_of w h)"



text \<open>The overlay object as \<open>drawInfoBox\<close> leaves it on such a surface.\<close>

definition info_state :: "real \<Rightarrow> real \<Rightarrow> CanvasOverlay \<Rightarrow> CanvasOverlay" where
  "info_state w h this =
    this\<lparr>lastInfoBox :=
           Some \<lparr>box_x = Num (infoBoxX_of w h), box_y = Num (padding_of w h),
                 box_width = Num (infoBoxWidth_of w h),
                 box_height = Num ((if w < h then 50 else 70) * scale_of w h)\<rparr>,
         lastDbaX := Some (Num (dbaX_of w h))\<rparr>"

text \<open>A string that has a decimal point followed by exactly \<open>k\<close> characters, all digits.\<close>

definition decimal_digits :: "char set" where
  "decimal_digits = set ''0123456789''"

definition fixed_decimals :: "nat \<Rightarrow> string \<Rightarrow> bool" where
  "fixed_decimals k s =
    (let r = dropWhile (\<lambda>c. c \<noteq> CHR ''.'') s
     in r \<noteq> [] \<and> length (tl r) = k \<and> list_all (\<lambda>c. c \<in> decimal_digits) (tl r))"

section \<open>Example inputs\<close>

text \<open>
  A canvas whose \<open>measureText\<close> reports 60 pixels for every text, and a snapshot taken
  while recording, before any position or audio buffer is available.
\<close>

definition example_environment :: environment where
  "example_environment =
    \<lparr>measureText = (\<lambda>bold size txt. Num 60), dateStr = ''10:15:00 03/11/2026''\<rparr>"

definition example_data :: overlay_data where
  "example_data =
    \<lparr>data_currentDBA = Num 55.4, dbaColor = ''#00ff88'', data_level = getDBALevel (Num 55.4),
     latitude = None, longitude = None, isRecording = True,
     frequencyData = None, timeData = None\<rparr>"

text \<open>
  A position in Ho Chi Minh City, and a stand-in for \<open>String(x)\<close>, which \<open>toFixed\<close> uses
  from \<open>10^21\<close> on only.
\<close>

definition example_position :: position where
  "example_position = \<lparr>coords_latitude = 10.5, coords_longitude = 106.25\<rparr>"

definition example_toStr :: "real \<Rightarrow> string" where
  "example_toStr x = ''1e+21''"

section \<open>Properties of the level estimator\<close>

subsection \<open>Classification\<close>

lemma scan_levels_None: "scan_levels ls d = None \<longleftrightarrow> (\<forall>l\<in>set ls. \<not> d < lmax l)"
  by (induction ls) auto

lemma scan_levels_first:
  "scan_levels ls d = Some r \<longleftrightarrow>
     (\<exists>i<length ls. r = info (ls ! i) \<and> d < lmax (ls ! i) \<and> (\<forall>j<i. \<not> d < lmax (ls ! j)))"
proof (induction ls)
  case Nil
  show ?case by simp
next
  case (Cons l ls)
  show ?case
  proof (cases "d < lmax l")
    case True
    have "(\<exists>i<length (l # ls). r = info ((l # ls) ! i) \<and> d < lmax ((l # ls) ! i)
            \<and> (\<forall>j<i. \<not> d < lmax ((l # ls) ! j))) \<longleftrightarrow> r = info l"
    proof
      assume "\<exists>i<length (l # ls). r = info ((l # ls) ! i) \<and> d < lmax ((l # ls) ! i)
            \<and> (\<forall>j<i. \<not> d < lmax ((l # ls) ! j))"
      then obtain i where i: "r = info ((l # ls) ! i)" "\<forall>j<i. \<not> d < lmax ((l # ls) ! j)"
        by blast
      have "i = 0"
      proof (rule ccontr)
        assume "i \<noteq> 0"
        then have "0 < i" by simp
        with i(2) have "\<not> d < lmax ((l # ls) ! 0)" by blast
        with True show False by simp
      qed
      with i(1) show "r = info l" by simp
    next
      assume "r = info l"
      with True show "\<exists>i<length (l # ls). r = info ((l # ls) ! i) \<and> d < lmax ((l # ls) ! i)
            \<and> (\<forall>j<i. \<not> d < lmax ((l # ls) ! j))"
        by (intro exI[of _ 0]) simp
    qed
    with True show ?thesis by auto
  next
    case False
    have "(\<exists>i<length (l # ls). r = info ((l # ls) ! i) \<and> d < lmax ((l # ls) ! i)
            \<and> (\<forall>j<i. \<not> d < lmax ((l # ls) ! j))) \<longleftrightarrow>
          (\<exists>i<length ls. r = info (ls ! i) \<and> d < lmax (ls ! i)
            \<and> (\<forall>j<i. \<not> d < lmax (ls ! j)))"
      (is "?L \<longleftrightarrow> ?R")
    proof
      assume ?L
      then obtain i where i: "i < length (l # ls)" "r = info ((l # ls) ! i)"
        "d < lmax ((l # ls) ! i)" "\<forall>j<i. \<not> d < lmax ((l # ls) ! j)" by blast
      from i(3) False have "i \<noteq> 0" by (cases i) auto
      then obtain k where k: "i = Suc k" by (cases i) auto
      have "\<forall>j<k. \<not> d < lmax (ls ! j)"
      proof (intro allI impI)
        fix j assume "j < k"
        then have "Suc j < i" using k by simp
        with i(4) have "\<not> d < lmax ((l # ls) ! Suc j)" by blast
        then show "\<not> d < lmax (ls ! j)" by simp
      qed
      with i k show ?R by (intro exI[of _ k]) simp
    next
      assume ?R
      then obtain k where k: "k < length ls" "r = info (ls ! k)" "d < lmax (ls ! k)"
        "\<forall>j<k. \<not> d < lmax (ls ! j)" by blast
      have "\<forall>j<Suc k. \<not> d < lmax ((l # ls) ! j)"
      proof (intro allI impI)
        fix j assume "j < Suc k"
        show "\<not> d < lmax ((l # ls) ! j)"
        proof (cases j)
          case 0
          with False show ?thesis by simp
        next
          case (Suc m)
          with \<open>j < Suc k\<close> have "m < k" by simp
          with k(4) Suc show ?thesis by simp
        qed
      qed
      with k show ?L by (intro exI[of _ "Suc k"]) simp
    qed
    with False Cons.IH show ?thesis by simp
  qed
qed

lemma length_DBA_LEVELS: "length DBA_LEVELS = 5"
  by (simp add: DBA_LEVELS_def)

lemma last_band_unbounded: "lmax (DBA_LEVELS ! 4) = PosInf"
  by (simp add: DBA_LEVELS_def)

lemma scan_levels_finite: "\<exists>r. scan_levels DBA_LEVELS (Num x) = Some r"
proof (cases "scan_levels DBA_LEVELS (Num x)")
  case None
  then have "\<forall>l\<in>set DBA_LEVELS. \<not> Num x < lmax l" by (simp add: scan_levels_None)
  moreover have "DBA_LEVELS ! 4 \<in> set DBA_LEVELS"
    by (rule nth_mem) (simp add: length_DBA_LEVELS)
  ultimately have "\<not> Num x < lmax (DBA_LEVELS ! 4)" by blast
  then show ?thesis by (simp add: last_band_unbounded)
next
  case (Some r)
  then show ?thesis by simp
qed

text \<open>
  C1.  Classification is total with strict-less-than semantics.  For every number \<open>x\<close>,
  \<open>getDBALevel\<close> returns the band at the first position \<open>i\<close> of \<open>DBA_LEVELS\<close> whose \<open>max\<close>
  strictly exceeds \<open>x\<close>.  An input equal to the upper bound of a band that has a successor
  resolves to that successor.  Every input \<open>v\<close> whatever, NaN and the infinities
  included, is mapped to some band of the list.
\<close>

theorem getDBALevel_first_band:
  "(\<exists>i<length DBA_LEVELS.
       getDBALevel (Num x) = info (DBA_LEVELS ! i)
     \<and> Num x < lmax (DBA_LEVELS ! i)
     \<and> (\<forall>j<i. \<not> Num x < lmax (DBA_LEVELS ! j)))
   \<and> (\<forall>i. Suc i < length DBA_LEVELS \<longrightarrow>
          getDBALevel (lmax (DBA_LEVELS ! i)) = info (DBA_LEVELS ! Suc i))
   \<and> (\<exists>i<length DBA_LEVELS. getDBALevel v = info (DBA_LEVELS ! i))"
proof (intro conjI)
  obtain r where r: "scan_levels DBA_LEVELS (Num x) = Some r"
    using scan_levels_finite by blast
  then have "getDBALevel (Num x) = r" by (simp add: getDBALevel_def)
  with r show "\<exists>i<length DBA_LEVELS. getDBALevel (Num x) = info (DBA_LEVELS ! i)
       \<and> Num x < lmax (DBA_LEVELS ! i) \<and> (\<forall>j<i. \<not> Num x < lmax (DBA_LEVELS ! j))"
    by (simp add: scan_levels_first)
next
  show "\<forall>i. Suc i < length DBA_LEVELS \<longrightarrow>
          getDBALevel (lmax (DBA_LEVELS ! i)) = info (DBA_LEVELS ! Suc i)"
  proof (intro allI impI)
    fix i assume "Suc i < length DBA_LEVELS"
    then have "i = 0 \<or> i = 1 \<or> i = 2 \<or> i = 3" by (simp add: length_DBA_LEVELS) arith
    then show "getDBALevel (lmax (DBA_LEVELS ! i)) = info (DBA_LEVELS ! Suc i)"
      by (elim disjE) (simp_all add: getDBALevel_def DBA_LEVELS_def)
  qed
next
  show "\<exists>i<length DBA_LEVELS. getDBALevel v = info (DBA_LEVELS ! i)"
  proof (cases "scan_levels DBA_LEVELS v")
    case None
    then have "getDBALevel v = info (DBA_LEVELS ! 4)"
      by (simp add: getDBALevel_def length_DBA_LEVELS)
    then show ?thesis by (intro exI[of _ 4]) (simp add: length_DBA_LEVELS)
  next
    case (Some r)
    then have "getDBALevel v = r" by (simp add: getDBALevel_def)
    with Some show ?thesis by (auto simp: scan_levels_first)
  qed
qed

theorem getDBALevel_first_band_witness:
  "Suc 3 < length DBA_LEVELS \<and> lmax (DBA_LEVELS ! 3) = Num 85
   \<and> class_of (getDBALevel (Num 85)) = ''level-very-loud''"
proof -
  have h: "Suc 3 < length DBA_LEVELS" by (simp add: length_DBA_LEVELS)
  have b: "lmax (DBA_LEVELS ! 3) = Num 85" by (simp add: DBA_LEVELS_def)
  from getDBALevel_first_band[of 85 "Num 85"]
  have "\<forall>i. Suc i < length DBA_LEVELS \<longrightarrow>
          getDBALevel (lmax (DBA_LEVELS ! i)) = info (DBA_LEVELS ! Suc i)" by blast
  with h have "getDBALevel (lmax (DBA_LEVELS ! 3)) = info (DBA_LEVELS ! Suc 3)" by blast
  with b have "getDBALevel (Num 85) = info (DBA_LEVELS ! Suc 3)" by simp
  then have "class_of (getDBALevel (Num 85)) = ''level-very-loud''"
    by (simp add: DBA_LEVELS_def info_def)
  with h b show ?thesis by blast
qed

subsection \<open>Filter selection\<close>

text \<open>
  C3.  Filter-cascade selection is deterministic and total over sample rates.  The rate
  44100 gets the 44.1 kHz set and 48000 the 48 kHz set; every other rate gets the 48 kHz
  set exactly when it exceeds 46000 and the 44.1 kHz set otherwise.  So every rate gets
  exactly one of the two sets, always a cascade of two stages, and the choice is the one
  the comparison with 46000 alone makes.
\<close>

theorem createAWeightingFilters_selection:
  "fst (createAWeightingFilters r) =
     (if r = Num 44100 then coefficients_44100
      else if r = Num 48000 then coefficients_48000
      else if Num 46000 < r then coefficients_48000 else coefficients_44100)
   \<and> (fst (createAWeightingFilters r) = coefficients_44100)
       \<noteq> (fst (createAWeightingFilters r) = coefficients_48000)
   \<and> length (fst (createAWeightingFilters r)) = 2
   \<and> fst (createAWeightingFilters r)
       = (if Num 46000 < r then coefficients_48000 else coefficients_44100)"
  by (simp add: createAWeightingFilters_def coefficients_44100_def coefficients_48000_def
        createIIRFilter_def)

theorem createAWeightingFilters_selection_witness:
  "Num 47000 \<noteq> Num 44100 \<and> Num 47000 \<noteq> Num 48000 \<and> Num 46000 < Num 47000
   \<and> fst (createAWeightingFilters (Num 47000)) = coefficients_48000
   \<and> fst (createAWeightingFilters (Num 22050)) = coefficients_44100"
  using createAWeightingFilters_selection[of "Num 47000"]
        createAWeightingFilters_selection[of "Num 22050"]
  by simp

subsection \<open>The level computation\<close>

lemma calculateDBA_step:
  assumes "analyser s" "dbaAnalyser s" "clampedDBA buf = Num v" "currentDBA s = Num c"
  shows "calculateDBA buf s =
           (Num (of_int \<lfloor>c * 0.92 + v * 0.08 + 1 / 2\<rfloor>),
            s\<lparr>currentDBA := Num (c * 0.92 + v * 0.08)\<rparr>)"
  using assms by (simp add: calculateDBA_def AUDIO_CONFIG_def Let_def)



lemma setup_stream_constructor:
  "analyser (setup_stream constructor)" "dbaAnalyser (setup_stream constructor)"
  "currentDBA (setup_stream constructor) = Num 0"
  by (simp_all add: setup_stream_def constructor_def)




subsection \<open>Smoothing\<close>




























subsection \<open>The range of the smoothed level\<close>

lemma sum_loop_finite:
  "\<forall>x\<in>set buf. isFinite x \<Longrightarrow> \<exists>t. sum_loop (Num a) buf = Num t \<and> a \<le> t"
proof (induction buf arbitrary: a)
  case Nil
  show ?case by simp
next
  case (Cons x xs)
  then obtain r where r: "x = Num r" by (cases x) auto
  from Cons.prems have "\<forall>y\<in>set xs. isFinite y" by simp
  from Cons.IH[OF this, of "a + r * r"] obtain t where
    t: "sum_loop (Num (a + r * r)) xs = Num t" "a + r * r \<le> t" by blast
  have "a \<le> a + r * r" by simp
  with t(2) have "a \<le> t" by linarith
  with t(1) r show ?case by simp
qed

lemma rms_finite:
  assumes "buf \<noteq> []" "\<forall>x\<in>set buf. isFinite x"
  shows "\<exists>r. rms buf = Num r \<and> 0 \<le> r"
proof -
  from sum_loop_finite[OF assms(2), of 0] obtain t where
    t: "sum_loop (Num 0) buf = Num t" "0 \<le> t" by blast
  from assms(1) have len: "real (length buf) > 0" by simp
  with t(2) have "0 \<le> t / real (length buf)" by simp
  with t(1) len show ?thesis
    by (intro exI[of _ "sqrt (t / real (length buf))"]) (simp add: rms_def)
qed

lemma clampedDBA_range:
  assumes "buf \<noteq> []" "\<forall>x\<in>set buf. isFinite x"
  shows "\<exists>v. clampedDBA buf = Num v \<and> 20 \<le> v \<and> v \<le> 120"
proof -
  from rms_finite[OF assms] obtain r where r: "rms buf = Num r" "0 \<le> r" by blast
  show ?thesis
  proof (cases "r = 0")
    case True
    with r show ?thesis by (simp add: clampedDBA_def clamp_def dba_def AUDIO_CONFIG_def)
  next
    case False
    with r have "clampedDBA buf = Num (max 20 (min 120 (20 * log 10 r + 20)))"
      by (simp add: clampedDBA_def clamp_def dba_def AUDIO_CONFIG_def)
    then show ?thesis by (intro exI[of _ "max 20 (min 120 (20 * log 10 r + 20))"]) simp
  qed
qed

lemma calculateDBA_range:
  assumes buf: "buf \<noteq> []" "\<forall>x\<in>set buf. isFinite x"
    and cur: "currentDBA s = Num c" "0 \<le> c" "c \<le> 120"
  shows "\<exists>c' k. currentDBA (snd (calculateDBA buf s)) = Num c' \<and> 0 \<le> c' \<and> c' \<le> 120
           \<and> fst (calculateDBA buf s) = Num (of_int k) \<and> 0 \<le> k \<and> k \<le> 120"
proof (cases "analyser s \<and> dbaAnalyser s")
  case False
  then have "calculateDBA buf s = (Num 0, s)" by (auto simp: calculateDBA_def)
  with cur show ?thesis by (intro exI[of _ c] exI[of _ 0]) simp
next
  case True
  from clampedDBA_range[OF buf] obtain v where
    v: "clampedDBA buf = Num v" "20 \<le> v" "v \<le> 120" by blast
  let ?c = "c * 0.92 + v * 0.08"
  from True v(1) cur(1)
  have step: "calculateDBA buf s = (Num (of_int \<lfloor>?c + 1 / 2\<rfloor>), s\<lparr>currentDBA := Num ?c\<rparr>)"
    by (simp add: calculateDBA_step)
  have lo: "0 \<le> ?c" using cur(2) v(2) by simp
  have hi: "?c \<le> 120" using cur(3) v(3) by simp
  have "0 \<le> \<lfloor>?c + 1 / 2\<rfloor>" using lo by simp
  moreover have "\<lfloor>?c + 1 / 2\<rfloor> \<le> 120" using hi by (simp add: floor_le_iff)
  ultimately show ?thesis using step lo hi
    by (intro exI[of _ ?c] exI[of _ "\<lfloor>?c + 1 / 2\<rfloor>"]) simp
qed

lemma frames_range:
  assumes "\<forall>buf\<in>set bufs. buf \<noteq> [] \<and> (\<forall>x\<in>set buf. isFinite x)"
    and "currentDBA s = Num c" "0 \<le> c" "c \<le> 120"
  shows "(\<exists>c'. currentDBA (snd (frames bufs s)) = Num c' \<and> 0 \<le> c' \<and> c' \<le> 120)
       \<and> (\<forall>r\<in>set (fst (frames bufs s)). \<exists>k::int. r = Num (of_int k) \<and> 0 \<le> k \<and> k \<le> 120)"
  using assms
proof (induction bufs arbitrary: s c)
  case Nil
  then show ?case by simp
next
  case (Cons buf bufs)
  from Cons.prems(1) have b: "buf \<noteq> []" "\<forall>x\<in>set buf. isFinite x" by simp_all
  from calculateDBA_range[OF b Cons.prems(2-4)] obtain c' k where
    st: "currentDBA (snd (calculateDBA buf s)) = Num c'" "0 \<le> c'" "c' \<le> 120"
      "fst (calculateDBA buf s) = Num (of_int k)" "0 \<le> k" "k \<le> 120" by blast
  from Cons.prems(1) have rest: "\<forall>b\<in>set bufs. b \<noteq> [] \<and> (\<forall>x\<in>set b. isFinite x)" by simp
  note IH = Cons.IH[OF rest st(1-3)]
  have fr: "frames (buf # bufs) s =
     (fst (calculateDBA buf s) # fst (frames bufs (snd (calculateDBA buf s))),
      snd (frames bufs (snd (calculateDBA buf s))))"
    by (simp add: split_beta)
  show ?case unfolding fr using IH st(4-6) by auto
qed

text \<open>
  C9.  The range of the smoothed level.  Let every frame's buffer be non-empty and hold
  finite samples only, and let the smoothed level be a number in \<open>[0, 120]\<close>, as it is in
  the constructor's state, where it is 0.  Then after all the frames the smoothed level
  is again a number in \<open>[0, 120]\<close>, and every value \<open>calculateDBA\<close> returned is an integer in
  \<open>[0, 120]\<close>.  Each buffer's clamped level is a number in \<open>[20, 120]\<close>, whatever the
  logarithm gave, and a call on an initialized analyser replaces the smoothed level \<open>c\<close> by
  the convex combination \<open>0.92 * c + 0.08 * v\<close> with that clamped level \<open>v\<close>.
\<close>

theorem currentDBA_invariant:
  assumes "\<forall>buf\<in>set bufs. buf \<noteq> [] \<and> (\<forall>x\<in>set buf. isFinite x)"
    and "currentDBA s = Num c" "0 \<le> c" "c \<le> 120"
  shows "(\<exists>c'. currentDBA (snd (frames bufs s)) = Num c' \<and> 0 \<le> c' \<and> c' \<le> 120)
       \<and> (\<forall>r\<in>set (fst (frames bufs s)). \<exists>k::int. r = Num (of_int k) \<and> 0 \<le> k \<and> k \<le> 120)
       \<and> (\<forall>buf\<in>set bufs. \<exists>v. clampedDBA buf = Num v \<and> 20 \<le> v \<and> v \<le> 120
             \<and> (\<forall>t c0. analyser t \<and> dbaAnalyser t \<and> currentDBA t = Num c0 \<longrightarrow>
                   currentDBA (snd (calculateDBA buf t)) = Num (c0 * 0.92 + v * 0.08)))"
proof (intro conjI ballI)
  from frames_range[OF assms]
  show "\<exists>c'. currentDBA (snd (frames bufs s)) = Num c' \<and> 0 \<le> c' \<and> c' \<le> 120" by blast
next
  fix r assume "r \<in> set (fst (frames bufs s))"
  with frames_range[OF assms]
  show "\<exists>k::int. r = Num (of_int k) \<and> 0 \<le> k \<and> k \<le> 120" by blast
next
  fix buf assume "buf \<in> set bufs"
  with assms(1) have "buf \<noteq> []" "\<forall>x\<in>set buf. isFinite x" by auto
  from clampedDBA_range[OF this] obtain v where
    v: "clampedDBA buf = Num v" "20 \<le> v" "v \<le> 120" by blast
  have "\<forall>t c0. analyser t \<and> dbaAnalyser t \<and> currentDBA t = Num c0 \<longrightarrow>
          currentDBA (snd (calculateDBA buf t)) = Num (c0 * 0.92 + v * 0.08)"
    using v(1) by (simp add: calculateDBA_step)
  with v show "\<exists>v. clampedDBA buf = Num v \<and> 20 \<le> v \<and> v \<le> 120
             \<and> (\<forall>t c0. analyser t \<and> dbaAnalyser t \<and> currentDBA t = Num c0 \<longrightarrow>
                   currentDBA (snd (calculateDBA buf t)) = Num (c0 * 0.92 + v * 0.08))"
    by blast
qed

theorem currentDBA_invariant_witness:
  "[Num 1] \<noteq> [] \<and> isFinite (Num 1) \<and> [Num 0, Num 0] \<noteq> [] \<and> isFinite (Num 0)
   \<and> currentDBA (setup_stream constructor) = Num 0
   \<and> (\<exists>c'. currentDBA (snd (frames [[Num 1], [Num 0, Num 0]] (setup_stream constructor))) = Num c'
          \<and> 0 \<le> c' \<and> c' \<le> 120)"
proof -
  have e: "[Num 1] \<noteq> []" "isFinite (Num 1)" "[Num 0, Num 0] \<noteq> []" "isFinite (Num 0)"
    by simp_all
  then have h: "\<forall>buf\<in>set [[Num 1], [Num 0, Num 0]]. buf \<noteq> [] \<and> (\<forall>x\<in>set buf. isFinite x)"
    by simp
  have z: "(0::real) \<le> 0" "(0::real) \<le> 120" by simp_all
  from currentDBA_invariant[OF h setup_stream_constructor(3) z]
  have "\<exists>c'. currentDBA (snd (frames [[Num 1], [Num 0, Num 0]] (setup_stream constructor))) = Num c'
          \<and> 0 \<le> c' \<and> c' \<le> 120" by blast
  with e setup_stream_constructor(3) show ?thesis by blast
qed

subsection \<open>The display throttle\<close>

text \<open>
  C10.  The display throttle and a cached zero.  \<open>getDisplayDBA\<close> returns the cached
  \<open>displayDBA\<close>, as it stands after the refresh the call may have made, exactly when that
  value is truthy; otherwise it returns \<open>Math.round(currentDBA)\<close>.  So whenever the cache
  is 0 the rounded current level is returned, also when the cache was last refreshed less
  than 500 ms ago, in which case the state is left as it was.  A returned 0 therefore
  means that the rounded current level is 0.
\<close>

theorem getDisplayDBA_zero_cache:
  "fst (getDisplayDBA now s) =
      (if truthy (displayDBA (snd (getDisplayDBA now s)))
       then displayDBA (snd (getDisplayDBA now s))
       else Math_round (currentDBA s))
   \<and> (displayDBA (snd (getDisplayDBA now s)) = Num 0 \<longrightarrow>
         fst (getDisplayDBA now s) = Math_round (currentDBA s))
   \<and> (lastDisplayUpdate s \<noteq> 0 \<and> now - lastDisplayUpdate s < 500 \<and> displayDBA s = Num 0 \<longrightarrow>
         snd (getDisplayDBA now s) = s \<and> fst (getDisplayDBA now s) = Math_round (currentDBA s))
   \<and> (fst (getDisplayDBA now s) = Num 0 \<longrightarrow> Math_round (currentDBA s) = Num 0)"
  by (auto simp add: getDisplayDBA_def Let_def AUDIO_CONFIG_def)

theorem getDisplayDBA_zero_cache_witness:
  "lastDisplayUpdate \<lparr>analyser = True, dbaAnalyser = True, dataArray = None,
      timeDataArray = None, currentDBA = Num 42.3, displayDBA = Num 0,
      lastDisplayUpdate = 1000\<rparr> \<noteq> 0
   \<and> (1200::int) - 1000 < 500
   \<and> fst (getDisplayDBA 1200 \<lparr>analyser = True, dbaAnalyser = True, dataArray = None,
      timeDataArray = None, currentDBA = Num 42.3, displayDBA = Num 0,
      lastDisplayUpdate = 1000\<rparr>) = Num 42"
  using getDisplayDBA_zero_cache[of 1200 "\<lparr>analyser = True, dbaAnalyser = True,
      dataArray = None, timeDataArray = None, currentDBA = Num 42.3, displayDBA = Num 0,
      lastDisplayUpdate = 1000\<rparr>"]
  by simp

section \<open>Properties of the overlay\<close>


subsection \<open>Scale\<close>

text \<open>
  C7.  Scale floors.  For a surface of any finite width \<open>w\<close> and height \<open>h\<close>, in either
  orientation, \<open>calculateScale\<close> returns \<open>scale = max(MIN_SCALE, w / baseWidth)\<close> with
  \<open>MIN_SCALE = 0.5\<close>, \<open>fontSize = max(14, 22 * scale)\<close> and \<open>padding = max(20, 30 * scale)\<close>; so
  the scale is at least 0.5, the font size at least 14 and the padding at least 20.  From
  two thirds of the base width on, all three are proportional to \<open>w\<close>.
\<close>

theorem calculateScale_floors:
  "\<exists>s f p. calculateScale (Num w) (Num h) isPortrait = (Num s, Num f, Num p)
      \<and> s = max 0.5 (w / (if isPortrait then 720 else 1920))
      \<and> f = max 14 (22 * s) \<and> p = max 20 (30 * s)
      \<and> minScale = Num 0.5 \<and> 0.5 \<le> s \<and> 14 \<le> f \<and> 20 \<le> p
      \<and> (2 / 3 * (if isPortrait then 720 else 1920) \<le> w \<longrightarrow>
            s = w / (if isPortrait then 720 else 1920)
          \<and> f = 22 * (w / (if isPortrait then 720 else 1920))
          \<and> p = 30 * (w / (if isPortrait then 720 else 1920)))"
  by (cases isPortrait)
     (auto simp add: calculateScale_def Let_def baseWidthPortrait_def baseWidthLandscape_def
       minScale_def max_def)

theorem calculateScale_floors_witness:
  "calculateScale (Num 100) (Num 50) False = (Num 0.5, Num 14, Num 20)
   \<and> 2 / 3 * (if False then 720 else 1920) \<le> (3840::real)
   \<and> calculateScale (Num 3840) (Num 2160) False = (Num 2, Num 44, Num 60)"
proof -
  from calculateScale_floors[of 100 50 False] obtain s f p where
    a: "calculateScale (Num 100) (Num 50) False = (Num s, Num f, Num p)"
       "s = max 0.5 (100 / (if False then 720 else 1920))" "f = max 14 (22 * s)"
       "p = max 20 (30 * s)"
    by blast
  from a(2) have "s = 0.5" by simp
  with a(3,4) have "f = 14" "p = 20" by simp_all
  with a(1) \<open>s = 0.5\<close> have small: "calculateScale (Num 100) (Num 50) False = (Num 0.5, Num 14, Num 20)"
    by simp
  have large: "2 / 3 * (if False then 720 else 1920) \<le> (3840::real)" by simp
  from calculateScale_floors[of 3840 2160 False] obtain s' f' p' where
    b: "calculateScale (Num 3840) (Num 2160) False = (Num s', Num f', Num p')"
       "2 / 3 * (if False then 720 else 1920) \<le> (3840::real) \<longrightarrow>
            s' = 3840 / (if False then 720 else 1920)
          \<and> f' = 22 * (3840 / (if False then 720 else 1920))
          \<and> p' = 30 * (3840 / (if False then 720 else 1920))"
    by blast
  from b(2) large have "s' = 2" "f' = 44" "p' = 60" by simp_all
  with b(1) have "calculateScale (Num 3840) (Num 2160) False = (Num 2, Num 44, Num 60)" by simp
  with small large show ?thesis by blast
qed

subsection \<open>The drawing steps on a finite surface\<close>

lemma calculateScale_Num:
  "calculateScale (Num w) (Num h) (w < h)
     = (Num (scale_of w h), Num (max 14 (22 * scale_of w h)), Num (padding_of w h))"
  by (simp add: calculateScale_def Let_def baseWidthPortrait_def baseWidthLandscape_def
       minScale_def scale_of_def padding_of_def)

lemma calls_of_tag:
  "map snd (filter (\<lambda>c. fst c = e) (tag e' ops)) = (if e = e' then ops else [])"
  by (induction ops) (auto simp: tag_def)




lemma drawInfoBox_state:
  "fst (drawInfoBox env (Num w) (Num h) (Num (scale_of w h)) F (Num (padding_of w h)) (w < h) d st)
     = info_state w h st"
  by (simp add: drawInfoBox_def Let_def info_state_def infoBoxX_of_def infoBoxWidth_of_def
       dbaX_of_def dbaBox_widthPortrait_def dbaBox_widthLandscape_def infoBox_widthPortrait_def
       infoBox_widthLandscape_def infoBox_heightPortrait_def infoBox_heightLandscape_def)

lemma draw_Num:
  "draw env (Num w) (Num h) d st =
    \<lparr>overlay = info_state w h st,
     calls = tag DbaBox (drawDBABox env (Num w) (Num h) (Num (scale_of w h))
                (Num (max 14 (22 * scale_of w h))) (Num (padding_of w h)) (w < h) d)
           @ tag InfoBox (snd (drawInfoBox env (Num w) (Num h) (Num (scale_of w h))
                (Num (max 14 (22 * scale_of w h))) (Num (padding_of w h)) (w < h) d st))
           @ tag RecIndicator (if isRecording d
                then drawRecordingIndicator env (Num w) (Num h) (Num (scale_of w h))
                       (Num (max 14 (22 * scale_of w h))) (Num (padding_of w h)) (w < h) d
                       (info_state w h st)
                else [])
           @ tag MiniVisualizer (fst (drawMiniVisualizer env (Num w) (Num h) (Num (scale_of w h))
                (Num (padding_of w h)) (w < h) d))
           @ tag Watermark (case snd (drawMiniVisualizer env (Num w) (Num h) (Num (scale_of w h))
                (Num (padding_of w h)) (w < h) d) of
                 None \<Rightarrow> drawWatermark env (Num w) (Num h) (Num (scale_of w h))
                           (Num (max 14 (22 * scale_of w h)))
               | Some e \<Rightarrow> []),
     thrown = snd (drawMiniVisualizer env (Num w) (Num h) (Num (scale_of w h))
                (Num (padding_of w h)) (w < h) d)\<rparr>"
  by (simp add: draw_def calculateScale_Num split_beta drawInfoBox_state Let_def
        cong: option.case_cong)

lemma calls_of_draw:
  "calls_of e \<lparr>overlay = o', calls = tag DbaBox a @ tag InfoBox b @ tag RecIndicator c
       @ tag MiniVisualizer m @ tag Watermark k, thrown = t\<rparr>
   = (case e of DbaBox \<Rightarrow> a | InfoBox \<Rightarrow> b | RecIndicator \<Rightarrow> c | MiniVisualizer \<Rightarrow> m
      | Watermark \<Rightarrow> k)"
  by (cases e) (simp_all add: calls_of_def calls_of_tag)







subsection \<open>The recording badge\<close>






subsection \<open>Missing snapshot data\<close>











lemma infoBox_last:
  "\<exists>x y. last (snd (drawInfoBox env W H S F P port d st)) = FillText (Str (locationStr d)) x y"
  by (simp add: drawInfoBox_def Let_def)





































subsection \<open>The coordinate string\<close>

lemma digit_char_digit: "d < 10 \<Longrightarrow> digit_char d \<in> decimal_digits"
  unfolding digit_char_def decimal_digits_def by (rule nth_mem) simp

lemma zero_digit: "CHR ''0'' \<in> decimal_digits"
  by (simp add: decimal_digits_def)

lemma point_no_digit: "CHR ''.'' \<notin> decimal_digits"
  by (simp add: decimal_digits_def)

lemma digits10_digits: "set (digits10 n) \<subseteq> decimal_digits"
proof (induction n rule: digits10.induct)
  case (1 n)
  show ?case
  proof (cases "n < 10")
    case True
    then have "digits10 n = [digit_char n]" by (subst digits10.simps) simp
    with digit_char_digit[OF True] show ?thesis by simp
  next
    case False
    then have eq: "digits10 n = digits10 (n div 10) @ [digit_char (n mod 10)]"
      by (subst digits10.simps) simp
    have "digit_char (n mod 10) \<in> decimal_digits" by (rule digit_char_digit) simp
    with 1[OF False] show ?thesis unfolding eq by simp
  qed
qed

lemma toFixed_shape:
  assumes "\<bar>x\<bar> < 10 ^ 21" "0 < f"
  shows "\<exists>a b. toFixed toStr x f = a @ ''.'' @ b \<and> CHR ''.'' \<notin> set a \<and> length b = f
           \<and> set b \<subseteq> decimal_digits"
proof -
  define s :: string where "s = (if x < 0 then ''-'' else [])"
  define m where "m = digits10 (nat \<lfloor>\<bar>x\<bar> * 10 ^ f + 1 / 2\<rfloor>)"
  define m' where
    "m' = (if length m \<le> f then replicate (f + 1 - length m) (CHR ''0'') @ m else m)"
  have big: "\<not> 10 ^ 21 \<le> \<bar>x\<bar>" using assms(1) by linarith
  have tf: "toFixed toStr x f = s @ take (length m' - f) m' @ ''.'' @ drop (length m' - f) m'"
    unfolding toFixed_def Let_def s_def m_def m'_def if_not_P[OF big] using assms(2) by simp
  have dm: "set m \<subseteq> decimal_digits" unfolding m_def by (rule digits10_digits)
  have dm': "set m' \<subseteq> decimal_digits"
  proof (cases "length m \<le> f")
    case True
    then have "set m' \<subseteq> insert (CHR ''0'') (set m)" by (auto simp: m'_def)
    with dm zero_digit show ?thesis by blast
  next
    case False
    with dm show ?thesis by (simp add: m'_def)
  qed
  have len: "f < length m'" by (auto simp: m'_def)
  have "set (take (length m' - f) m') \<subseteq> set m'" by (rule set_take_subset)
  with dm' point_no_digit have "CHR ''.'' \<notin> set (take (length m' - f) m')" by blast
  moreover have "CHR ''.'' \<notin> set s" by (simp add: s_def)
  ultimately have a: "CHR ''.'' \<notin> set (s @ take (length m' - f) m')" by simp
  have b1: "length (drop (length m' - f) m') = f" using len by simp
  have "set (drop (length m' - f) m') \<subseteq> set m'" by (rule set_drop_subset)
  with dm' have b2: "set (drop (length m' - f) m') \<subseteq> decimal_digits" by blast
  from tf a b1 b2 show ?thesis
    by (intro exI[of _ "s @ take (length m' - f) m'"] exI[of _ "drop (length m' - f) m'"]) simp
qed

lemma fixed_decimals_shape:
  assumes "CHR ''.'' \<notin> set a" "length b = k" "set b \<subseteq> decimal_digits"
  shows "fixed_decimals k (a @ ''.'' @ b)"
proof -
  have "dropWhile (\<lambda>c. c \<noteq> CHR ''.'') (a @ ''.'' @ b)
          = dropWhile (\<lambda>c. c \<noteq> CHR ''.'') (''.'' @ b)"
    using assms(1) by (intro dropWhile_append2) auto
  then have "dropWhile (\<lambda>c. c \<noteq> CHR ''.'') (a @ ''.'' @ b) = CHR ''.'' # b" by simp
  moreover have "list_all (\<lambda>c. c \<in> decimal_digits) b"
    using assms(3) unfolding list_all_iff by blast
  ultimately show ?thesis using assms(2) by (simp add: fixed_decimals_def Let_def)
qed

lemma toFixed_six:
  assumes "\<bar>x\<bar> < 10 ^ 21"
  shows "fixed_decimals 6 (toFixed toStr x 6)" "toFixed toStr x 6 \<noteq> []"
proof -
  have "(0::nat) < 6" by simp
  from toFixed_shape[OF assms this, of toStr] obtain a b where
    ab: "toFixed toStr x 6 = a @ ''.'' @ b" "CHR ''.'' \<notin> set a" "length b = 6"
      "set b \<subseteq> decimal_digits" by blast
  show "fixed_decimals 6 (toFixed toStr x 6)"
    unfolding ab(1) using ab(2-4) by (rule fixed_decimals_shape)
  show "toFixed toStr x 6 \<noteq> []" unfolding ab(1) by simp
qed

lemma toFixed_example_latitude: "toFixed toStr 10.5 6 = ''10.500000''"
proof -
  have big: "\<not> (10::real) ^ 21 \<le> \<bar>10.5\<bar>" by simp
  have n: "nat \<lfloor>\<bar>10.5::real\<bar> * 10 ^ 6 + 1 / 2\<rfloor> = 10500000" by simp
  have d: "digits10 10500000 = ''10500000''" by (simp add: digits10.simps digit_char_def)
  show ?thesis unfolding toFixed_def Let_def if_not_P[OF big] n d by simp
qed

lemma toFixed_example_longitude: "toFixed toStr 106.25 6 = ''106.250000''"
proof -
  have big: "\<not> (10::real) ^ 21 \<le> \<bar>106.25\<bar>" by simp
  have n: "nat \<lfloor>\<bar>106.25::real\<bar> * 10 ^ 6 + 1 / 2\<rfloor> = 106250000" by simp
  have d: "digits10 106250000 = ''106250000''" by (simp add: digits10.simps digit_char_def)
  show ?thesis unfolding toFixed_def Let_def if_not_P[OF big] n d by simp
qed

lemma handleSuccess_example:
  "fst (handleSuccess toStr example_position g)
     = g\<lparr>gm_latitude := Some ''10.500000'', gm_longitude := Some ''106.250000''\<rparr>"
proof -
  have p: "coords_latitude example_position = 10.5" "coords_longitude example_position = 106.25"
    by (simp_all add: example_position_def)
  show ?thesis
    unfolding handleSuccess_def Let_def p toFixed_example_latitude toFixed_example_longitude
    by simp
qed

text \<open>
  C6, as stated, fails.  The position (10.5, 106.25) reaches the overlay as the strings
  \<open>10.500000\<close> and \<open>106.250000\<close>, and the info box of a 1920 x 1080 surface writes them as
  they are: six digits after each decimal point, not two.
\<close>

theorem coordinates_two_decimals_counterexample:
  "gm_latitude (fst (handleSuccess example_toStr example_position new_GeolocationManager))
     = Some ''10.500000''
   \<and> gm_longitude (fst (handleSuccess example_toStr example_position new_GeolocationManager))
     = Some ''106.250000''
   \<and> last (calls_of InfoBox
        (draw example_environment (Num 1920) (Num 1080)
           (getOverlayData constructor
              (fst (handleSuccess example_toStr example_position new_GeolocationManager))
              False [] [])
           new_CanvasOverlay))
     = FillText (Str (pin_symbol @ '' 10.500000, 106.250000'')) (Num 38) (Num 79)
   \<and> \<not> fixed_decimals 2 ''10.500000'' \<and> \<not> fixed_decimals 2 ''106.250000''"
proof -
  have s: "scale_of 1920 1080 = 1" "padding_of 1920 1080 = 30"
    by (simp_all add: scale_of_def padding_of_def)
  show ?thesis
    by (simp add: handleSuccess_example draw_Num calls_of_draw s drawInfoBox_def Let_def
          locationStr_def getOverlayData_def fixed_decimals_def infoBox_heightLandscape_def)
qed

text \<open>
  C6, amended.  On a surface of finite width and height the last call of the info box
  writes, after the pin symbol, the latitude and the longitude of the snapshot as they
  are, separated by a comma, whenever both are present and non-empty, and the marker
  \<open>N/A\<close> otherwise.  The strings \<open>handleSuccess\<close> stores for a position, of coordinates below
  \<open>10^21\<close> in magnitude, carry exactly six digits after the decimal point, and so does
  the text drawn for a snapshot built from them.
\<close>

theorem coordinates_six_decimals:
  "(\<exists>x y. last (calls_of InfoBox (draw env (Num w) (Num h) d st))
            = FillText (Str (if present (latitude d) \<and> present (longitude d)
                             then pin_symbol @ '' '' @ the (latitude d) @ '', ''
                                  @ the (longitude d)
                             else pin_symbol @ '' N/A'')) x y)
   \<and> (\<bar>coords_latitude pos\<bar> < 10 ^ 21 \<and> \<bar>coords_longitude pos\<bar> < 10 ^ 21 \<longrightarrow>
        (\<exists>la lo. gm_latitude (fst (handleSuccess toStr pos g)) = Some la
               \<and> gm_longitude (fst (handleSuccess toStr pos g)) = Some lo
               \<and> fixed_decimals 6 la \<and> fixed_decimals 6 lo
               \<and> locationStr (getOverlayData a (fst (handleSuccess toStr pos g)) r sp wv)
                   = pin_symbol @ '' '' @ la @ '', '' @ lo))"
proof (intro conjI impI)
  from infoBox_last[of env "Num w" "Num h" "Num (scale_of w h)"
        "Num (max 14 (22 * scale_of w h))" "Num (padding_of w h)" "w < h" d st]
  show "\<exists>x y. last (calls_of InfoBox (draw env (Num w) (Num h) d st))
            = FillText (Str (if present (latitude d) \<and> present (longitude d)
                             then pin_symbol @ '' '' @ the (latitude d) @ '', ''
                                  @ the (longitude d)
                             else pin_symbol @ '' N/A'')) x y"
    by (simp add: draw_Num calls_of_draw locationStr_def)
next
  assume b: "\<bar>coords_latitude pos\<bar> < 10 ^ 21 \<and> \<bar>coords_longitude pos\<bar> < 10 ^ 21"
  let ?la = "toFixed toStr (coords_latitude pos) 6"
  let ?lo = "toFixed toStr (coords_longitude pos) 6"
  from b have la: "fixed_decimals 6 ?la" "?la \<noteq> []" by (simp_all add: toFixed_six)
  from b have lo: "fixed_decimals 6 ?lo" "?lo \<noteq> []" by (simp_all add: toFixed_six)
  have g: "gm_latitude (fst (handleSuccess toStr pos g)) = Some ?la"
    "gm_longitude (fst (handleSuccess toStr pos g)) = Some ?lo"
    by (simp_all add: handleSuccess_def Let_def)
  have "locationStr (getOverlayData a (fst (handleSuccess toStr pos g)) r sp wv)
          = pin_symbol @ '' '' @ ?la @ '', '' @ ?lo"
    using la(2) lo(2) by (simp add: locationStr_def getOverlayData_def g)
  with g la(1) lo(1)
  show "\<exists>la lo. gm_latitude (fst (handleSuccess toStr pos g)) = Some la
               \<and> gm_longitude (fst (handleSuccess toStr pos g)) = Some lo
               \<and> fixed_decimals 6 la \<and> fixed_decimals 6 lo
               \<and> locationStr (getOverlayData a (fst (handleSuccess toStr pos g)) r sp wv)
                   = pin_symbol @ '' '' @ la @ '', '' @ lo"
    by blast
qed

theorem coordinates_six_decimals_witness:
  "\<bar>coords_latitude example_position\<bar> < 10 ^ 21
   \<and> \<bar>coords_longitude example_position\<bar> < 10 ^ 21
   \<and> fixed_decimals 6 ''10.500000'' \<and> fixed_decimals 6 ''106.250000''
   \<and> locationStr (getOverlayData (setup_stream constructor)
         (fst (handleSuccess example_toStr example_position new_GeolocationManager))
         False [] [])
       = pin_symbol @ '' 10.500000, 106.250000''"
proof -
  have b: "\<bar>coords_latitude example_position\<bar> < 10 ^ 21
             \<and> \<bar>coords_longitude example_position\<bar> < 10 ^ 21"
    by (simp add: example_position_def)
  from coordinates_six_decimals[of example_environment 0 0 example_data new_CanvasOverlay
         example_position example_toStr new_GeolocationManager "setup_stream constructor"
         False "[]" "[]"] b
  obtain la lo where
    l: "gm_latitude (fst (handleSuccess example_toStr example_position new_GeolocationManager))
          = Some la"
       "gm_longitude (fst (handleSuccess example_toStr example_position new_GeolocationManager))
          = Some lo"
       "fixed_decimals 6 la" "fixed_decimals 6 lo"
       "locationStr (getOverlayData (setup_stream constructor)
          (fst (handleSuccess example_toStr example_position new_GeolocationManager))
          False [] [])
        = pin_symbol @ '' '' @ la @ '', '' @ lo"
    by blast
  from l(1,2) have "la = ''10.500000''" "lo = ''106.250000''"
    by (simp_all add: handleSuccess_example)
  with l(3,4,5) b show ?thesis by simp
qed

end
